theory Spec2Isabelle
  imports Main "HOL-Library.Finite_Map"
begin

section \<open>Strings\<close>

text \<open>
  A JavaScript string is a sequence of UTF-16 code units and \<open>length\<close> counts those
  units. A code unit is modelled as a natural number (a real one is below 65536);
  \<open>js\<close> embeds an ASCII literal.
\<close>

type_synonym jsstring = "nat list"

definition js :: "string \<Rightarrow> jsstring" where
  "js s = map of_char s"

text \<open>
  \<open>String.prototype.substring(start, end)\<close>: both indices are clamped to
  \<open>[0, length]\<close> and swapped when the first exceeds the second.
\<close>

definition substring :: "jsstring \<Rightarrow> int \<Rightarrow> int \<Rightarrow> jsstring" where
  "substring s start end' =
     (let len = int (length s);
          a = min (max start 0) len;
          b = min (max end' 0) len;
          from = min a b;
          to = max a b
      in take (nat (to - from)) (drop (nat from) s))"

text \<open>
  The line terminators of ECMAScript (LF, CR, LS, PS), which the regular expression
  atom \<open>.\<close> does not match, and its white space, which \<open>trim\<close> strips together with
  the line terminators.
\<close>

definition is_line_terminator :: "nat \<Rightarrow> bool" where
  "is_line_terminator u = (u = 10 \<or> u = 13 \<or> u = 8232 \<or> u = 8233)"

definition is_whitespace :: "nat \<Rightarrow> bool" where
  "is_whitespace u =
     (u = 9 \<or> u = 11 \<or> u = 12 \<or> u = 32 \<or> u = 160 \<or> u = 5760
      \<or> (8192 \<le> u \<and> u \<le> 8202) \<or> u = 8239 \<or> u = 8287 \<or> u = 12288 \<or> u = 65279
      \<or> is_line_terminator u)"

definition trim :: "jsstring \<Rightarrow> jsstring" where
  "trim s = rev (dropWhile is_whitespace (rev (dropWhile is_whitespace s)))"

text \<open>
  \<open>s.split(sep)\<close> for a separator of one unit: the pieces between the separators,
  in order; the empty string gives one empty piece.
\<close>

fun split_at :: "nat \<Rightarrow> jsstring \<Rightarrow> jsstring list" where
  "split_at sep [] = [[]]"
| "split_at sep (c # cs) =
     (if c = sep then [] # split_at sep cs
      else (case split_at sep cs of
              [] \<Rightarrow> [[c]]
            | piece # pieces \<Rightarrow> (c # piece) # pieces))"

text \<open>
  \<open>toLowerCase\<close>, modelled on the ASCII letters: \<open>A\<close>..\<open>Z\<close> go to \<open>a\<close>..\<open>z\<close>, every
  other code unit is kept.
\<close>

definition lower_unit :: "nat \<Rightarrow> nat" where
  "lower_unit u = (if 65 \<le> u \<and> u \<le> 90 then u + 32 else u)"

definition toLowerCase :: "jsstring \<Rightarrow> jsstring" where
  "toLowerCase s = map lower_unit s"

section \<open>utils.js: LRC parsing and lookup\<close>

record lyric_line =
  time :: int
  lyric :: jsstring

definition is_digit :: "nat \<Rightarrow> bool" where
  "is_digit u = (48 \<le> u \<and> u \<le> 57)"

text \<open>\<open>parseInt(s, 10)\<close> on a string of exactly two decimal digits.\<close>

definition parseInt2 :: "nat \<Rightarrow> nat \<Rightarrow> int" where
  "parseInt2 a b = int (10 * (a - 48) + (b - 48))"

text \<open>The greedy group \<open>(.*)\<close>: the units up to the first line terminator.\<close>

definition dot_star :: "jsstring \<Rightarrow> jsstring" where
  "dot_star s = takeWhile (\<lambda>u. \<not> is_line_terminator u) s"

text \<open>
  The regular expression \<open>/\[(\d{2}):(\d{2})\.(\d{2})\](.*)/\<close> tried at the head of
  a string: the three numeric groups and the fourth group.
\<close>

definition match_here :: "jsstring \<Rightarrow> (int \<times> int \<times> int \<times> jsstring) option" where
  "match_here s =
     (if 10 \<le> length s \<and> s ! 0 = 91
         \<and> is_digit (s ! 1) \<and> is_digit (s ! 2) \<and> s ! 3 = 58
         \<and> is_digit (s ! 4) \<and> is_digit (s ! 5) \<and> s ! 6 = 46
         \<and> is_digit (s ! 7) \<and> is_digit (s ! 8) \<and> s ! 9 = 93
      then Some (parseInt2 (s ! 1) (s ! 2), parseInt2 (s ! 4) (s ! 5),
                 parseInt2 (s ! 7) (s ! 8),
                 dot_star (drop 10 s))
      else None)"

text \<open>\<open>line.match(re)\<close>: the expression is not anchored, the leftmost match wins.\<close>

fun regex_match :: "jsstring \<Rightarrow> (int \<times> int \<times> int \<times> jsstring) option" where
  "regex_match [] = None"
| "regex_match (c # cs) =
     (case match_here (c # cs) of
        Some m \<Rightarrow> Some m
      | None \<Rightarrow> regex_match cs)"

text \<open>The body of the \<open>forEach\<close> callback: the entries one line pushes.\<close>

definition parse_line :: "jsstring \<Rightarrow> lyric_line list" where
  "parse_line line =
     (case regex_match line of
        None \<Rightarrow> []
      | Some (minutes, seconds, centiseconds, rest) \<Rightarrow>
          (let timeMs = minutes * 60000 + seconds * 1000 + centiseconds * 10;
               lyricText = trim rest
           in if lyricText \<noteq> [] then [\<lparr>time = timeMs, lyric = lyricText\<rparr>] else []))"

text \<open>\<open>parseLRC\<close>; \<open>None\<close> is a null argument.\<close>

definition parseLRC :: "jsstring option \<Rightarrow> lyric_line list" where
  "parseLRC lrcString =
     (case lrcString of
        None \<Rightarrow> []
      | Some s \<Rightarrow> if s = [] then [] else concat (map parse_line (split_at 10 s)))"



text \<open>
  The loop of \<open>getLyricAtProgress\<close>: it keeps the text of each line at or before the
  progress and leaves at the first line after it.
\<close>

fun lyric_scan :: "lyric_line list \<Rightarrow> int \<Rightarrow> jsstring option \<Rightarrow> jsstring option" where
  "lyric_scan [] progressMs currentLyric = currentLyric"
| "lyric_scan (l # ls) progressMs currentLyric =
     (if time l \<le> progressMs then lyric_scan ls progressMs (Some (lyric l))
      else currentLyric)"

definition getLyricAtProgress :: "lyric_line list option \<Rightarrow> int \<Rightarrow> jsstring option" where
  "getLyricAtProgress lyrics progressMs =
     (case lyrics of
        None \<Rightarrow> None
      | Some ls \<Rightarrow> if length ls = 0 then None else lyric_scan ls progressMs None)"

text \<open>
  The specification's words for the lookup: the text of the last line, in document
  order, whose offset is at or before the progress.
\<close>

definition LineAt_spec :: "lyric_line list \<Rightarrow> int \<Rightarrow> jsstring option" where
  "LineAt_spec ls progressMs =
     (case filter (\<lambda>l. time l \<le> progressMs) ls of
        [] \<Rightarrow> None
      | x # xs \<Rightarrow> Some (lyric (last (x # xs))))"

definition truncateLyric :: "jsstring \<Rightarrow> jsstring \<Rightarrow> jsstring" where
  "truncateLyric lyric_text prefix =
     (let maxLength = 128 - int (length prefix)
      in if int (length lyric_text) > maxLength
         then prefix @ substring lyric_text 0 (maxLength - 3) @ js ''...''
         else prefix @ lyric_text)"

text \<open>The timelines of the specification's lookup example and an out-of-order one.\<close>

definition abc_timeline :: "lyric_line list" where
  "abc_timeline =
     [\<lparr>time = 0, lyric = js ''a''\<rparr>, \<lparr>time = 5500, lyric = js ''b''\<rparr>,
      \<lparr>time = 10250, lyric = js ''c''\<rparr>]"

definition unsorted_timeline :: "lyric_line list" where
  "unsorted_timeline =
     [\<lparr>time = 0, lyric = js ''a''\<rparr>, \<lparr>time = 5000, lyric = js ''b''\<rparr>,
      \<lparr>time = 1000, lyric = js ''c''\<rparr>]"

section \<open>utils.js: LyricsCache\<close>

text \<open>
  The \<open>Map\<close> of the cache is a finite map from keys to entries; every reading of
  \<open>Date.now()\<close> is an argument \<open>now\<close>.
\<close>

record cache_entry =
  lyrics :: "lyric_line list"
  timestamp :: int

record LyricsCache =
  cache :: "(jsstring, cache_entry) fmap"
  ttl :: int

definition new_LyricsCache :: "int \<Rightarrow> LyricsCache" where
  "new_LyricsCache t = \<lparr>cache = fmempty, ttl = t\<rparr>"

definition default_ttl :: int where
  "default_ttl = 600000"

definition generateKey :: "jsstring \<Rightarrow> jsstring \<Rightarrow> jsstring" where
  "generateKey trackName artistName = toLowerCase (trackName @ js ''::'' @ artistName)"

definition cache_set ::
  "LyricsCache \<Rightarrow> int \<Rightarrow> jsstring \<Rightarrow> jsstring \<Rightarrow> lyric_line list \<Rightarrow> LyricsCache" where
  "cache_set c now trackName artistName ls =
     (let key = generateKey trackName artistName
      in c\<lparr>cache := fmupd key \<lparr>lyrics = ls, timestamp = now\<rparr> (cache c)\<rparr>)"

definition cache_get ::
  "LyricsCache \<Rightarrow> int \<Rightarrow> jsstring \<Rightarrow> jsstring \<Rightarrow> lyric_line list option \<times> LyricsCache" where
  "cache_get c now trackName artistName =
     (let key = generateKey trackName artistName
      in case fmlookup (cache c) key of
           None \<Rightarrow> (None, c)
         | Some entry \<Rightarrow>
             if now - timestamp entry > ttl c
             then (None, c\<lparr>cache := fmdrop key (cache c)\<rparr>)
             else (Some (lyrics entry), c))"

definition cache_clear :: "LyricsCache \<Rightarrow> LyricsCache" where
  "cache_clear c = c\<lparr>cache := fmempty\<rparr>"

definition cache_size :: "LyricsCache \<Rightarrow> nat" where
  "cache_size c = fcard (fmdom (cache c))"

section \<open>utils.js: RateLimiter and DiffChecker\<close>

record RateLimiter =
  threshold :: int
  lastUpdate :: int

definition new_RateLimiter :: "int \<Rightarrow> RateLimiter" where
  "new_RateLimiter t = \<lparr>threshold = t, lastUpdate = 0\<rparr>"

definition canUpdate :: "RateLimiter \<Rightarrow> int \<Rightarrow> bool \<times> RateLimiter" where
  "canUpdate r now =
     (if now - lastUpdate r \<ge> threshold r then (True, r\<lparr>lastUpdate := now\<rparr>)
      else (False, r))"

definition RateLimiter_reset :: "RateLimiter \<Rightarrow> RateLimiter" where
  "RateLimiter_reset r = r\<lparr>lastUpdate := 0\<rparr>"

record DiffChecker =
  lastLyric :: "jsstring option"

definition new_DiffChecker :: DiffChecker where
  "new_DiffChecker = \<lparr>lastLyric = None\<rparr>"

definition hasChanged :: "DiffChecker \<Rightarrow> jsstring \<Rightarrow> bool \<times> DiffChecker" where
  "hasChanged d l =
     (let changed = (Some l \<noteq> lastLyric d)
      in if changed then (True, d\<lparr>lastLyric := Some l\<rparr>) else (False, d))"

definition DiffChecker_reset :: "DiffChecker \<Rightarrow> DiffChecker" where
  "DiffChecker_reset d = d\<lparr>lastLyric := None\<rparr>"

text \<open>
  The two checks as \<open>poll\<close> runs them on a status text: the diff check first, the
  rate limiter only when the text has changed. The result says whether the status
  is sent on.
\<close>

definition gate ::
  "DiffChecker \<Rightarrow> RateLimiter \<Rightarrow> jsstring \<Rightarrow> int \<Rightarrow> bool \<times> DiffChecker \<times> RateLimiter" where
  "gate d r statusText now =
     (case hasChanged d statusText of
        (changed, d') \<Rightarrow>
          if \<not> changed then (False, d', r)
          else (case canUpdate r now of (ok, r') \<Rightarrow> (ok, d', r')))"

text \<open>A sequence of candidates, each with the clock reading of its tick.\<close>

fun gate_run :: "DiffChecker \<Rightarrow> RateLimiter \<Rightarrow> (jsstring \<times> int) list \<Rightarrow> bool list" where
  "gate_run d r [] = []"
| "gate_run d r ((statusText, now) # cs) =
     (case gate d r statusText now of
        (emit, d', r') \<Rightarrow> emit # gate_run d' r' cs)"

section \<open>discordService.js\<close>

text \<open>
  An HTTP request through axios either resolves with a value or rejects with an
  error; of the error, the code reads whether it is a timeout (\<open>ECONNABORTED\<close>)
  and the status of its response, if there is one.
\<close>

record axios_error =
  timed_out :: bool
  status :: "nat option"

datatype 'a axios_result = Resolved 'a | Rejected axios_error

text \<open>The requests the service sends: a status text, or the clearing of the status.\<close>

datatype request = SetStatus jsstring | ClearStatus

type_synonym discord_api = "request \<Rightarrow> unit axios_result"

record DiscordService =
  lastStatus :: "jsstring option"
  ready :: bool

definition new_DiscordService :: DiscordService where
  "new_DiscordService = \<lparr>lastStatus = None, ready = True\<rparr>"

text \<open>
  \<open>setLyricStatus\<close> gives the error it throws, if any, the service afterwards, and
  the requests it has sent.
\<close>

definition setLyricStatus ::
  "DiscordService \<Rightarrow> discord_api \<Rightarrow> jsstring
   \<Rightarrow> axios_error option \<times> DiscordService \<times> request list" where
  "setLyricStatus ds api lyric_text =
     (let text = substring lyric_text 0 128
      in if Some text = lastStatus ds then (None, ds, [])
         else (case api (SetStatus text) of
                 Resolved u \<Rightarrow> (None, ds\<lparr>lastStatus := Some text\<rparr>, [SetStatus text])
               | Rejected e \<Rightarrow> (Some e, ds, [SetStatus text])))"


section \<open>lyricsService.js\<close>

text \<open>
  The body of an LRCLIB response, and the object \<open>fetchLyrics\<close> returns, have the
  same three fields. The LRCLIB client is a function from the query to the outcome
  of the request; a response may come without a body.
\<close>

record lyrics_data =
  instrumental :: bool
  syncedLyrics :: "jsstring option"
  plainLyrics :: "jsstring option"

record lrclib_query =
  track_name :: jsstring
  artist_name :: jsstring
  duration_ms :: int

type_synonym lrclib_api = "lrclib_query \<Rightarrow> lyrics_data option axios_result"

text \<open>\<open>x || null\<close> on a string or null: the empty string is falsy.\<close>

definition or_null :: "jsstring option \<Rightarrow> jsstring option" where
  "or_null x = (case x of None \<Rightarrow> None | Some s \<Rightarrow> if s = [] then None else Some s)"

text \<open>
  The query \<open>fetchLyrics\<close> sends: the title, the first of the comma-separated
  performers, trimmed, and the duration.
\<close>

definition lrclib_query_of :: "jsstring \<Rightarrow> jsstring \<Rightarrow> int \<Rightarrow> lrclib_query" where
  "lrclib_query_of trackName artistName dur =
     (let primaryArtist = trim (hd (split_at 44 artistName))
      in \<lparr>track_name = trackName, artist_name = primaryArtist, duration_ms = dur\<rparr>)"

text \<open>
  \<open>fetchLyrics\<close>: every error is caught and gives null, whether a timeout, a 404 or
  anything else.
\<close>

definition fetchLyrics ::
  "lrclib_api \<Rightarrow> jsstring \<Rightarrow> jsstring \<Rightarrow> int \<Rightarrow> lyrics_data option" where
  "fetchLyrics client trackName artistName dur =
     (case client (lrclib_query_of trackName artistName dur) of
        Resolved None \<Rightarrow> None
      | Resolved (Some d) \<Rightarrow>
          if instrumental d
          then Some \<lparr>instrumental = True, syncedLyrics = None, plainLyrics = None\<rparr>
          else Some \<lparr>instrumental = False, syncedLyrics = or_null (syncedLyrics d),
                     plainLyrics = or_null (plainLyrics d)\<rparr>
      | Rejected e \<Rightarrow>
          if timed_out e then None
          else if status e = Some 404 then None
          else None)"

definition fetchAndParseLyrics ::
  "lrclib_api \<Rightarrow> jsstring \<Rightarrow> jsstring \<Rightarrow> int \<Rightarrow> lyric_line list option" where
  "fetchAndParseLyrics client trackName artistName dur =
     (case fetchLyrics client trackName artistName dur of
        None \<Rightarrow> None
      | Some lyricsData \<Rightarrow>
          (case syncedLyrics lyricsData of
             None \<Rightarrow> None
           | Some s \<Rightarrow> if s = [] then None else Some (parseLRC (Some s))))"

text \<open>
  \<open>convertPlainToTimed\<close>. The source computes \<open>Math.round(index * (duration / n))\<close>
  in double precision; the model takes the quotient exactly and rounds halves up.
\<close>

definition round_div :: "int \<Rightarrow> int \<Rightarrow> int" where
  "round_div a n = (2 * a + n) div (2 * n)"

definition convertPlainToTimed :: "jsstring \<Rightarrow> int \<Rightarrow> lyric_line list" where
  "convertPlainToTimed plain dur =
     (let lines = filter (\<lambda>line. length line > 0) (map trim (split_at 10 plain))
      in if length lines = 0 then []
         else map (\<lambda>(index, l). \<lparr>time = round_div (int index * dur) (int (length lines)),
                                  lyric = l\<rparr>)
                (enumerate 0 lines))"

text \<open>
  \<open>searchLyrics\<close> asks LRCLIB twice; \<open>client\<close> answers the first request and
  \<open>client'\<close> the second.
\<close>

definition searchLyrics ::
  "lrclib_api \<Rightarrow> lrclib_api \<Rightarrow> jsstring \<Rightarrow> jsstring \<Rightarrow> int \<Rightarrow> lyric_line list option" where
  "searchLyrics client client' trackName artistName dur =
     (case fetchAndParseLyrics client trackName artistName dur of
        Some parsed \<Rightarrow> Some parsed
      | None \<Rightarrow>
          (case fetchLyrics client' trackName artistName dur of
             None \<Rightarrow> None
           | Some lyricsData \<Rightarrow>
               (case plainLyrics lyricsData of
                  None \<Rightarrow> None
                | Some p \<Rightarrow>
                    if p \<noteq> [] \<and> \<not> instrumental lyricsData
                    then Some (convertPlainToTimed p dur)
                    else None)))"

section \<open>index.js: the orchestrator\<close>

record config =
  CACHE_ENABLED :: bool
  RATE_LIMIT_THRESHOLD :: int
  SYNC_OFFSET :: int

text \<open>The fields of a track that the orchestrator reads.\<close>

record track =
  track_id :: jsstring
  name :: jsstring
  artists :: jsstring
  duration :: int
  progress :: int
  isPlaying :: bool

text \<open>\<open>getCurrentlyPlaying\<close> throws, returns null, or returns a track.\<close>

datatype playback = PlaybackError | NoPlayback | Playing track

text \<open>
  What one polling cycle meets outside the process: the playback, the two remote
  services, and the readings of \<open>Date.now()\<close> in \<open>LyricsCache.get\<close>,
  \<open>LyricsCache.set\<close> and \<open>RateLimiter.canUpdate\<close>.
\<close>

record tick =
  playing :: playback
  lrclib :: lrclib_api
  discord_net :: discord_api
  clock_get :: int
  clock_set :: int
  clock_gate :: int

record bot =
  discord :: DiscordService
  lyricsCache :: LyricsCache
  rateLimiter :: RateLimiter
  diffChecker :: DiffChecker
  currentTrackId :: "jsstring option"
  currentLyrics :: "lyric_line list option"

definition new_bot :: "config \<Rightarrow> bot" where
  "new_bot cfg =
     \<lparr>discord = new_DiscordService,
      lyricsCache = new_LyricsCache default_ttl,
      rateLimiter = new_RateLimiter (RATE_LIMIT_THRESHOLD cfg),
      diffChecker = new_DiffChecker,
      currentTrackId = None,
      currentLyrics = None\<rparr>"

definition fetchAndCacheLyrics :: "config \<Rightarrow> tick \<Rightarrow> track \<Rightarrow> bot \<Rightarrow> bot" where
  "fetchAndCacheLyrics cfg w t b =
     (case (if CACHE_ENABLED cfg
            then cache_get (lyricsCache b) (clock_get w) (name t) (artists t)
            else (None, lyricsCache b)) of
        (Some cached, c) \<Rightarrow> b\<lparr>lyricsCache := c, currentLyrics := Some cached\<rparr>
      | (None, c) \<Rightarrow>
          (case fetchAndParseLyrics (lrclib w) (name t) (artists t) (duration t) of
             Some ls \<Rightarrow>
               b\<lparr>lyricsCache :=
                    (if CACHE_ENABLED cfg
                     then cache_set c (clock_set w) (name t) (artists t) ls
                     else c),
                  currentLyrics := Some ls\<rparr>
           | None \<Rightarrow> b\<lparr>lyricsCache := c, currentLyrics := None\<rparr>))"


text \<open>
  The two markers: a quaver and a space, and the musical-note emoji (a surrogate
  pair) and a space.
\<close>

definition lyric_marker :: jsstring where
  "lyric_marker = [9834, 32]"

definition note_marker :: jsstring where
  "note_marker = [55356, 57269, 32]"

text \<open>The status text \<open>poll\<close> prepares; a null or empty current line is falsy.\<close>

definition statusText :: "jsstring option \<Rightarrow> lyric_line list option \<Rightarrow> track \<Rightarrow> jsstring" where
  "statusText currentLyric lyrics_now t =
     (case (case currentLyric of None \<Rightarrow> None | Some l \<Rightarrow> if l = [] then None else Some l) of
        Some l \<Rightarrow> truncateLyric l lyric_marker
      | None \<Rightarrow>
          if (case lyrics_now of None \<Rightarrow> False | Some ls \<Rightarrow> length ls > 0)
          then note_marker @ name t
          else note_marker @ js ''Listening to '' @ name t)"


definition change_track :: "config \<Rightarrow> tick \<Rightarrow> track \<Rightarrow> bot \<Rightarrow> bot" where
  "change_track cfg w t b =
     fetchAndCacheLyrics cfg w t
       (b\<lparr>currentTrackId := Some (track_id t), currentLyrics := None,
          diffChecker := DiffChecker_reset (diffChecker b)\<rparr>)"



text \<open>A cache that holds one track, stored at clock 0.\<close>

definition song_cache :: LyricsCache where
  "song_cache =
     cache_set (new_LyricsCache default_ttl) 0 (js ''Song'') (js ''Artist'') abc_timeline"

section \<open>Scenarios\<close>

text \<open>
  The default configuration; LRCLIB answering 404, an instrumental track, or plain
  lyrics only; Discord accepting every request, or refusing with 401; two tracks; a
  tick in which every reading of the clock is the same.
\<close>

definition default_config :: config where
  "default_config = \<lparr>CACHE_ENABLED = True, RATE_LIMIT_THRESHOLD = 1000, SYNC_OFFSET = 0\<rparr>"




definition four_lines :: jsstring where
  "four_lines = js ''l1'' @ [10] @ js ''l2'' @ [10] @ js ''l3'' @ [10] @ js ''l4''"

definition lrclib_plain :: lrclib_api where
  "lrclib_plain q =
     Resolved (Some \<lparr>instrumental = False, syncedLyrics = None,
                      plainLyrics = Some four_lines\<rparr>)"

definition discord_ok :: discord_api where
  "discord_ok r = Resolved ()"

definition discord_unauthorized :: discord_api where
  "discord_unauthorized r = Rejected \<lparr>timed_out = False, status = Some 401\<rparr>"

definition track_x :: track where
  "track_x = \<lparr>track_id = js ''x1'', name = js ''X'', artists = js ''Ann, Bob'',
              duration = 4000, progress = 0, isPlaying = True\<rparr>"


definition tick_at :: "playback \<Rightarrow> lrclib_api \<Rightarrow> int \<Rightarrow> tick" where
  "tick_at p client now =
     \<lparr>playing = p, lrclib = client, discord_net = discord_ok,
      clock_get = now, clock_set = now, clock_gate = now\<rparr>"


section \<open>Theorems\<close>

lemma js_dots: "js ''...'' = [46, 46, 46]"
  by (simp add: js_def)

subsection \<open>Lookup of the current line\<close>

lemma lyric_scan_prefix:
  "lyric_scan ls p cur =
     (case takeWhile (\<lambda>l. time l \<le> p) ls of
        [] \<Rightarrow> cur
      | x # xs \<Rightarrow> Some (lyric (last (x # xs))))"
  by (induction ls arbitrary: cur) (auto split: list.splits)

lemma lyric_scan_sorted:
  "sorted (map time ls) \<Longrightarrow>
   lyric_scan ls p cur =
     (case filter (\<lambda>l. time l \<le> p) ls of
        [] \<Rightarrow> cur
      | x # xs \<Rightarrow> Some (lyric (last (x # xs))))"
proof (induction ls arbitrary: cur)
  case Nil
  then show ?case by simp
next
  case (Cons l ls)
  show ?case
  proof (cases "time l \<le> p")
    case True
    with Cons show ?thesis by (simp split: list.splits)
  next
    case False
    with Cons.prems have "\<forall>x\<in>set ls. \<not> time x \<le> p" by auto
    then have "filter (\<lambda>l. time l \<le> p) ls = []" by (simp add: filter_empty_conv)
    with False show ?thesis by simp
  qed
qed

text \<open>
  C3 (as amended). For every timeline whose offsets are non-decreasing in document
  order and every progress value, \<open>getLyricAtProgress\<close> returns the text of the last
  line in document order whose offset is at or before the progress (so of the later
  line where offsets tie) and null when no line qualifies; it returns null on an empty
  or null timeline. On the timeline \<open>[(0,a),(5500,b),(10250,c)]\<close> it returns null
  for \<open>t < 0\<close>, \<open>a\<close> for \<open>0 \<le> t < 5500\<close>, \<open>b\<close> for \<open>5500 \<le> t < 10250\<close> and \<open>c\<close> from
  \<open>10250\<close> on.
\<close>

theorem getLyricAtProgress_last_cue:
  "(sorted (map time ls) \<longrightarrow> getLyricAtProgress (Some ls) p = LineAt_spec ls p)
   \<and> getLyricAtProgress (Some []) p = None
   \<and> getLyricAtProgress None p = None
   \<and> (t < 0 \<longrightarrow> getLyricAtProgress (Some abc_timeline) t = None)
   \<and> (0 \<le> t \<and> t < 5500 \<longrightarrow> getLyricAtProgress (Some abc_timeline) t = Some (js ''a''))
   \<and> (5500 \<le> t \<and> t < 10250 \<longrightarrow> getLyricAtProgress (Some abc_timeline) t = Some (js ''b''))
   \<and> (10250 \<le> t \<longrightarrow> getLyricAtProgress (Some abc_timeline) t = Some (js ''c''))"
proof -
  have "sorted (map time ls) \<longrightarrow> getLyricAtProgress (Some ls) p = LineAt_spec ls p"
    by (cases ls)
      (simp_all add: getLyricAtProgress_def LineAt_spec_def lyric_scan_sorted
         del: lyric_scan.simps)
  moreover have "getLyricAtProgress (Some []) p = None" "getLyricAtProgress None p = None"
    by (simp_all add: getLyricAtProgress_def)
  moreover have "t < 0 \<longrightarrow> getLyricAtProgress (Some abc_timeline) t = None"
    by (simp add: getLyricAtProgress_def abc_timeline_def)
  moreover have
    "0 \<le> t \<and> t < 5500 \<longrightarrow> getLyricAtProgress (Some abc_timeline) t = Some (js ''a'')"
    by (simp add: getLyricAtProgress_def abc_timeline_def)
  moreover have
    "5500 \<le> t \<and> t < 10250 \<longrightarrow> getLyricAtProgress (Some abc_timeline) t = Some (js ''b'')"
    by (simp add: getLyricAtProgress_def abc_timeline_def)
  moreover have "10250 \<le> t \<longrightarrow> getLyricAtProgress (Some abc_timeline) t = Some (js ''c'')"
    by (simp add: getLyricAtProgress_def abc_timeline_def)
  ultimately show ?thesis by blast
qed

theorem getLyricAtProgress_last_cue_witness:
  "sorted (map time abc_timeline)
   \<and> getLyricAtProgress (Some abc_timeline) 6000 = LineAt_spec abc_timeline 6000
   \<and> LineAt_spec abc_timeline 6000 = Some (js ''b'')
   \<and> getLyricAtProgress (Some abc_timeline) (- 1) = None
   \<and> getLyricAtProgress (Some abc_timeline) 5499 = Some (js ''a'')
   \<and> getLyricAtProgress (Some abc_timeline) 5500 = Some (js ''b'')
   \<and> getLyricAtProgress (Some abc_timeline) 10250 = Some (js ''c'')"
proof -
  have s: "sorted (map time abc_timeline)" by (simp add: abc_timeline_def)
  have v: "LineAt_spec abc_timeline 6000 = Some (js ''b'')"
    by (simp add: LineAt_spec_def abc_timeline_def)
  show ?thesis
    using s v getLyricAtProgress_last_cue [of abc_timeline 6000 "- 1"]
      getLyricAtProgress_last_cue [of abc_timeline 6000 5499]
      getLyricAtProgress_last_cue [of abc_timeline 6000 5500]
      getLyricAtProgress_last_cue [of abc_timeline 6000 10250]
    by simp
qed

text \<open>
  C3 as stated, for every timeline, fails on a timeline that is out of order: on
  \<open>[(0,a),(5000,b),(1000,c)]\<close> at progress 2000 the last line at or before the
  progress is \<open>c\<close>, and the loop, which leaves at \<open>b\<close>, returns \<open>a\<close>.
\<close>

theorem getLyricAtProgress_unsorted_counterexample:
  "getLyricAtProgress (Some unsorted_timeline) 2000 = Some (js ''a'')
   \<and> LineAt_spec unsorted_timeline 2000 = Some (js ''c'')
   \<and> getLyricAtProgress (Some unsorted_timeline) 2000 \<noteq> LineAt_spec unsorted_timeline 2000"
  by (simp add: getLyricAtProgress_def LineAt_spec_def unsorted_timeline_def js_def)

subsection \<open>Truncation\<close>

lemma substring_prefix: "0 \<le> n \<Longrightarrow> substring s 0 n = take (nat n) s"
  by (auto simp: substring_def Let_def min_def max_def)

text \<open>
  C8 (as amended). For every lyric and every marker prefix of at most 125 units, the
  result of \<open>truncateLyric\<close> starts with the marker and never exceeds 128 units; when
  marker and lyric together exceed 128 units it has exactly 128 units, the marker,
  the first units of the lyric, and three dots in place of the tail; otherwise it
  is the marker followed by the lyric. A lyric of 140 units with a marker of 2 units
  gives 128 units ending in the three dots.
\<close>

theorem truncateLyric_bound:
  "length prefix \<le> 125 \<longrightarrow>
     length (truncateLyric l prefix) \<le> 128
     \<and> take (length prefix) (truncateLyric l prefix) = prefix
     \<and> (128 < length prefix + length l \<longrightarrow>
          length (truncateLyric l prefix) = 128
          \<and> truncateLyric l prefix = prefix @ take (125 - length prefix) l @ js ''...'')
     \<and> (length prefix + length l \<le> 128 \<longrightarrow> truncateLyric l prefix = prefix @ l)
     \<and> (length l = 140 \<and> length prefix = 2 \<longrightarrow>
          length (truncateLyric l prefix) = 128
          \<and> drop 125 (truncateLyric l prefix) = js ''...'')"
  by (auto simp: truncateLyric_def Let_def substring_prefix js_dots nat_diff_distrib)

theorem truncateLyric_bound_witness:
  "length (js ''ab'') \<le> 125
   \<and> length (replicate 140 (120::nat)) = 140
   \<and> length (truncateLyric (replicate 140 120) (js ''ab'')) = 128
   \<and> truncateLyric (replicate 140 120) (js ''ab'') = js ''ab'' @ replicate 123 120 @ js ''...''
   \<and> truncateLyric (js ''la'') (js ''ab'') = js ''abla''"
  using truncateLyric_bound [of "js ''ab''" "replicate 140 120"]
    truncateLyric_bound [of "js ''ab''" "js ''la''"]
  by (simp add: js_def)

text \<open>
  C8 as stated, for every marker prefix, fails on a marker of 126 units: no room is
  left for the three dots, and a lyric of 3 units gives 129 units.
\<close>

theorem truncateLyric_long_prefix_counterexample:
  "length (truncateLyric (js ''abc'') (replicate 126 120)) = 129
   \<and> \<not> length (truncateLyric (js ''abc'') (replicate 126 120)) \<le> 128"
  by (simp add: truncateLyric_def substring_def js_def)

subsection \<open>The update gate\<close>

text \<open>
  C4 (as amended). With a threshold of 1000 ms, the gate in its initial state and a
  clock that reads \<open>T\<close>, at least 1000, at the first candidate: for the candidates
  \<open>A\<close> at \<open>T\<close>, \<open>A\<close> at \<open>T + 100\<close>, \<open>B\<close> at \<open>T + 200\<close>, \<open>B\<close> at \<open>T + 1000\<close>, exactly
  one is sent on, \<open>A\<close> at \<open>T\<close>. \<open>A\<close> at \<open>T + 100\<close> is stopped by the diff check;
  \<open>B\<close> at \<open>T + 200\<close> passes the diff check, which stores \<open>B\<close>, and is stopped by the
  rate limiter; \<open>B\<close> at \<open>T + 1000\<close> is stopped by the diff check although the rate
  limiter would let it through.
\<close>

theorem gate_sequence:
  "1000 \<le> T \<and> A \<noteq> B \<longrightarrow>
     gate new_DiffChecker (new_RateLimiter 1000) A T
       = (True, \<lparr>lastLyric = Some A\<rparr>, \<lparr>threshold = 1000, lastUpdate = T\<rparr>)
     \<and> hasChanged \<lparr>lastLyric = Some A\<rparr> A = (False, \<lparr>lastLyric = Some A\<rparr>)
     \<and> gate \<lparr>lastLyric = Some A\<rparr> \<lparr>threshold = 1000, lastUpdate = T\<rparr> A (T + 100)
       = (False, \<lparr>lastLyric = Some A\<rparr>, \<lparr>threshold = 1000, lastUpdate = T\<rparr>)
     \<and> hasChanged \<lparr>lastLyric = Some A\<rparr> B = (True, \<lparr>lastLyric = Some B\<rparr>)
     \<and> canUpdate \<lparr>threshold = 1000, lastUpdate = T\<rparr> (T + 200)
       = (False, \<lparr>threshold = 1000, lastUpdate = T\<rparr>)
     \<and> gate \<lparr>lastLyric = Some A\<rparr> \<lparr>threshold = 1000, lastUpdate = T\<rparr> B (T + 200)
       = (False, \<lparr>lastLyric = Some B\<rparr>, \<lparr>threshold = 1000, lastUpdate = T\<rparr>)
     \<and> hasChanged \<lparr>lastLyric = Some B\<rparr> B = (False, \<lparr>lastLyric = Some B\<rparr>)
     \<and> fst (canUpdate \<lparr>threshold = 1000, lastUpdate = T\<rparr> (T + 1000))
     \<and> gate \<lparr>lastLyric = Some B\<rparr> \<lparr>threshold = 1000, lastUpdate = T\<rparr> B (T + 1000)
       = (False, \<lparr>lastLyric = Some B\<rparr>, \<lparr>threshold = 1000, lastUpdate = T\<rparr>)
     \<and> gate_run new_DiffChecker (new_RateLimiter 1000)
          [(A, T), (A, T + 100), (B, T + 200), (B, T + 1000)]
       = [True, False, False, False]"
  by (simp add: gate_def hasChanged_def canUpdate_def Let_def new_DiffChecker_def
      new_RateLimiter_def)

theorem gate_sequence_witness:
  "(1000::int) \<le> 1000 \<and> js ''A'' \<noteq> js ''B''
   \<and> gate_run new_DiffChecker (new_RateLimiter 1000)
        [(js ''A'', 1000), (js ''A'', 1100), (js ''B'', 1200), (js ''B'', 2000)]
      = [True, False, False, False]"
  using gate_sequence [of 1000 "js ''A''" "js ''B''"]
  by (simp add: js_def)

text \<open>
  C4 as stated has the clock read 0 at the first candidate. The rate limiter starts
  with \<open>lastUpdate = 0\<close>, so at clock 0 no time has passed, \<open>A\<close> is stopped by the
  rate limiter and nothing at all is sent on.
\<close>

theorem gate_sequence_epoch_counterexample:
  "gate new_DiffChecker (new_RateLimiter 1000) (js ''A'') 0
     = (False, \<lparr>lastLyric = Some (js ''A'')\<rparr>, \<lparr>threshold = 1000, lastUpdate = 0\<rparr>)
   \<and> gate_run new_DiffChecker (new_RateLimiter 1000)
        [(js ''A'', 0), (js ''A'', 100), (js ''B'', 200), (js ''B'', 1000)]
      = [False, False, False, False]"
  by (simp add: gate_def hasChanged_def canUpdate_def Let_def new_DiffChecker_def
      new_RateLimiter_def js_def)

subsection \<open>Cache keys\<close>









subsection \<open>Cache expiry\<close>

lemma cache_size_drop:
  assumes "fmlookup m k = Some e"
  shows "fcard (fmdom (fmdrop k m)) = fcard (fmdom m) - 1 \<and> 0 < fcard (fmdom m)"
proof -
  from assms have k: "k |\<in>| fmdom m" by (rule fmdomI)
  from fcard_Suc_fminus1 [OF k] have "0 < fcard (fmdom m)" by arith
  with k show ?thesis by (simp add: fcard_fminus_fsingleton)
qed

text \<open>
  C9. \<open>get\<close> reports an entry absent exactly when the key has no entry or the entry
  is older than the time to live (\<open>now - timestamp > ttl\<close>). An entry found expired
  is removed by that read: afterwards the key has no entry and the cache holds one
  entry fewer. An entry not yet expired is returned and the cache is left as it is.
  With the default time to live of 600000 ms, an entry stored at clock 0 is gone at
  clock 600001, the size going from 1 to 0, and is returned at every clock up to
  600000.
\<close>

theorem cache_get_ttl:
  "(fst (cache_get c now t a) = None \<longleftrightarrow>
      (fmlookup (cache c) (generateKey t a) = None
       \<or> (\<exists>e. fmlookup (cache c) (generateKey t a) = Some e \<and> now - timestamp e > ttl c)))
   \<and> (fmlookup (cache c) (generateKey t a) = None \<longrightarrow> cache_get c now t a = (None, c))
   \<and> (fmlookup (cache c) (generateKey t a) = Some e \<and> now - timestamp e > ttl c \<longrightarrow>
        fst (cache_get c now t a) = None
        \<and> fmlookup (cache (snd (cache_get c now t a))) (generateKey t a) = None
        \<and> 0 < cache_size c
        \<and> cache_size (snd (cache_get c now t a)) = cache_size c - 1)
   \<and> (fmlookup (cache c) (generateKey t a) = Some e \<and> now - timestamp e \<le> ttl c \<longrightarrow>
        cache_get c now t a = (Some (lyrics e), c))
   \<and> cache_size (cache_set (new_LyricsCache default_ttl) 0 t a ls) = 1
   \<and> fst (cache_get (cache_set (new_LyricsCache default_ttl) 0 t a ls) 600001 t a) = None
   \<and> cache_size (snd (cache_get (cache_set (new_LyricsCache default_ttl) 0 t a ls) 600001 t a)) = 0
   \<and> (now \<le> 600000 \<longrightarrow>
        cache_get (cache_set (new_LyricsCache default_ttl) 0 t a ls) now t a
          = (Some ls, cache_set (new_LyricsCache default_ttl) 0 t a ls))"
proof -
  have 1: "fst (cache_get c now t a) = None \<longleftrightarrow>
      (fmlookup (cache c) (generateKey t a) = None
       \<or> (\<exists>e. fmlookup (cache c) (generateKey t a) = Some e \<and> now - timestamp e > ttl c))"
    by (auto simp: cache_get_def Let_def split: option.splits)
  have 2: "fmlookup (cache c) (generateKey t a) = None \<longrightarrow> cache_get c now t a = (None, c)"
    by (simp add: cache_get_def)
  have 3: "fmlookup (cache c) (generateKey t a) = Some e \<and> now - timestamp e > ttl c \<longrightarrow>
        fst (cache_get c now t a) = None
        \<and> fmlookup (cache (snd (cache_get c now t a))) (generateKey t a) = None
        \<and> 0 < cache_size c
        \<and> cache_size (snd (cache_get c now t a)) = cache_size c - 1"
    using cache_size_drop [of "cache c" "generateKey t a" e]
    by (simp add: cache_get_def cache_size_def)
  have 4: "fmlookup (cache c) (generateKey t a) = Some e \<and> now - timestamp e \<le> ttl c \<longrightarrow>
        cache_get c now t a = (Some (lyrics e), c)"
    by (simp add: cache_get_def)
  have 5: "cache_size (cache_set (new_LyricsCache default_ttl) 0 t a ls) = 1"
    by (simp add: cache_set_def new_LyricsCache_def cache_size_def fcard_finsert_if Let_def)
  have 6: "fst (cache_get (cache_set (new_LyricsCache default_ttl) 0 t a ls) 600001 t a) = None"
    "cache_size (snd (cache_get (cache_set (new_LyricsCache default_ttl) 0 t a ls) 600001 t a)) = 0"
    by (simp_all add: cache_get_def cache_set_def new_LyricsCache_def cache_size_def
        default_ttl_def Let_def)
  have 7: "now \<le> 600000 \<longrightarrow>
        cache_get (cache_set (new_LyricsCache default_ttl) 0 t a ls) now t a
          = (Some ls, cache_set (new_LyricsCache default_ttl) 0 t a ls)"
    by (simp add: cache_get_def cache_set_def new_LyricsCache_def default_ttl_def Let_def)
  from 1 2 3 4 5 6 7 show ?thesis by blast
qed

theorem cache_get_ttl_witness:
  "fmlookup (cache song_cache) (generateKey (js ''SONG'') (js ''artist''))
     = Some \<lparr>lyrics = abc_timeline, timestamp = 0\<rparr>
   \<and> 600001 - timestamp \<lparr>lyrics = abc_timeline, timestamp = 0\<rparr> > ttl song_cache
   \<and> 600000 - timestamp \<lparr>lyrics = abc_timeline, timestamp = 0\<rparr> \<le> ttl song_cache
   \<and> fmlookup (cache song_cache) (generateKey (js ''Other'') (js ''Artist'')) = None
   \<and> fst (cache_get song_cache 600001 (js ''SONG'') (js ''artist'')) = None
   \<and> cache_size song_cache = 1
   \<and> cache_size (snd (cache_get song_cache 600001 (js ''SONG'') (js ''artist''))) = 0
   \<and> cache_get song_cache 600000 (js ''SONG'') (js ''artist'') = (Some abc_timeline, song_cache)
   \<and> cache_get song_cache 5 (js ''Other'') (js ''Artist'') = (None, song_cache)"
proof -
  have k: "generateKey (js ''SONG'') (js ''artist'') = generateKey (js ''Song'') (js ''Artist'')"
    "generateKey (js ''Other'') (js ''Artist'') \<noteq> generateKey (js ''Song'') (js ''Artist'')"
    by (simp_all add: generateKey_def toLowerCase_def lower_unit_def js_def)
  have l: "fmlookup (cache song_cache) (generateKey (js ''SONG'') (js ''artist''))
     = Some \<lparr>lyrics = abc_timeline, timestamp = 0\<rparr>"
    "fmlookup (cache song_cache) (generateKey (js ''Other'') (js ''Artist'')) = None"
    "ttl song_cache = 600000"
    using k by (simp_all add: song_cache_def cache_set_def new_LyricsCache_def default_ttl_def Let_def)
  have s: "cache_size song_cache = 1"
    by (simp add: song_cache_def cache_set_def new_LyricsCache_def cache_size_def
        fcard_finsert_if Let_def)
  show ?thesis
    using l s
      cache_get_ttl [of song_cache 600001 "js ''SONG''" "js ''artist''"
        "\<lparr>lyrics = abc_timeline, timestamp = 0\<rparr>"]
      cache_get_ttl [of song_cache 600000 "js ''SONG''" "js ''artist''"
        "\<lparr>lyrics = abc_timeline, timestamp = 0\<rparr>"]
      cache_get_ttl [of song_cache 5 "js ''Other''" "js ''Artist''"]
    by simp
qed

subsection \<open>The status sink\<close>

lemma substring_take: "substring s 0 128 = take 128 s"
  by (simp add: substring_prefix)

text \<open>
  C10. \<open>setLyricStatus\<close> cuts the text to its first 128 units before anything else;
  the only request it can send carries that text, of at most 128 units. When the cut
  text is the last status sent with success it sends nothing and changes nothing.
  Otherwise it sends one request; the last status becomes the cut text when the
  request succeeds, and stays as it was, with the error thrown, when it fails. No
  state of the diff checker or the rate limiter enters the decision.
\<close>

theorem setLyricStatus_second_diff:
  "length (take 128 l) \<le> 128
   \<and> set (snd (snd (setLyricStatus ds api l))) \<subseteq> {SetStatus (take 128 l)}
   \<and> (lastStatus ds = Some (take 128 l) \<longrightarrow> setLyricStatus ds api l = (None, ds, []))
   \<and> (lastStatus ds \<noteq> Some (take 128 l) \<and> api (SetStatus (take 128 l)) = Resolved u \<longrightarrow>
        setLyricStatus ds api l
          = (None, ds\<lparr>lastStatus := Some (take 128 l)\<rparr>, [SetStatus (take 128 l)]))
   \<and> (lastStatus ds \<noteq> Some (take 128 l) \<and> api (SetStatus (take 128 l)) = Rejected e \<longrightarrow>
        setLyricStatus ds api l = (Some e, ds, [SetStatus (take 128 l)]))"
  by (auto simp: setLyricStatus_def substring_take Let_def split: axios_result.splits)

theorem setLyricStatus_second_diff_witness:
  "lastStatus \<lparr>lastStatus = Some (js ''hi''), ready = True\<rparr> = Some (take 128 (js ''hi''))
   \<and> setLyricStatus \<lparr>lastStatus = Some (js ''hi''), ready = True\<rparr> discord_ok (js ''hi'')
       = (None, \<lparr>lastStatus = Some (js ''hi''), ready = True\<rparr>, [])
   \<and> lastStatus new_DiscordService \<noteq> Some (take 128 (replicate 130 120))
   \<and> discord_ok (SetStatus (take 128 (replicate 130 120))) = Resolved ()
   \<and> setLyricStatus new_DiscordService discord_ok (replicate 130 120)
       = (None, \<lparr>lastStatus = Some (replicate 128 120), ready = True\<rparr>,
          [SetStatus (replicate 128 120)])
   \<and> discord_unauthorized (SetStatus (take 128 (replicate 130 120)))
       = Rejected \<lparr>timed_out = False, status = Some 401\<rparr>
   \<and> setLyricStatus new_DiscordService discord_unauthorized (replicate 130 120)
       = (Some \<lparr>timed_out = False, status = Some 401\<rparr>, new_DiscordService,
          [SetStatus (replicate 128 120)])"
  using setLyricStatus_second_diff [of "js ''hi''"
      "\<lparr>lastStatus = Some (js ''hi''), ready = True\<rparr>" discord_ok]
    setLyricStatus_second_diff [of "replicate 130 120" new_DiscordService discord_ok "()"]
    setLyricStatus_second_diff [of "replicate 130 120" new_DiscordService discord_unauthorized
      "()" "\<lparr>timed_out = False, status = Some 401\<rparr>"]
  by (simp add: new_DiscordService_def discord_ok_def discord_unauthorized_def js_def)

subsection \<open>Track change and end of playback\<close>








subsection \<open>Resolution of lyrics\<close>

lemma fetchLyrics_cases:
  "(client (lrclib_query_of t a dur) = Resolved (Some d) \<and> instrumental d \<longrightarrow>
      fetchLyrics client t a dur
        = Some \<lparr>instrumental = True, syncedLyrics = None, plainLyrics = None\<rparr>)
   \<and> (client (lrclib_query_of t a dur) = Resolved (Some d) \<and> \<not> instrumental d \<longrightarrow>
      fetchLyrics client t a dur
        = Some \<lparr>instrumental = False, syncedLyrics = or_null (syncedLyrics d),
                plainLyrics = or_null (plainLyrics d)\<rparr>)
   \<and> (client (lrclib_query_of t a dur) = Resolved None \<longrightarrow> fetchLyrics client t a dur = None)
   \<and> (client (lrclib_query_of t a dur) = Rejected e \<longrightarrow> fetchLyrics client t a dur = None)"
  by (simp add: fetchLyrics_def lrclib_query_of_def Let_def)

lemma fetch_none_current:
  assumes "fetchAndParseLyrics client (name t) (artists t) (duration t) = None"
    and "CACHE_ENABLED cfg \<longrightarrow> fst (cache_get (lyricsCache b) (clock_get w) (name t) (artists t)) = None"
  shows "currentLyrics (fetchAndCacheLyrics cfg (w\<lparr>lrclib := client\<rparr>) t b) = None"
    and "currentLyrics (change_track cfg (w\<lparr>lrclib := client\<rparr>) t b) = None"
    and "CACHE_ENABLED cfg \<longrightarrow>
           fmlookup (cache (lyricsCache (fetchAndCacheLyrics cfg (w\<lparr>lrclib := client\<rparr>) t b)))
             (generateKey (name t) (artists t)) = None"
  using assms
  by (auto simp: fetchAndCacheLyrics_def change_track_def cache_get_def Let_def
      split: prod.splits option.splits if_splits)






text \<open>
  C2, on the code. For a track whose LRCLIB result is plain lyrics only,
  \<open>fetchAndParseLyrics\<close>, which the orchestrator calls on a track change, returns
  null: on a cache miss the current lyrics stay null and nothing is cached under the
  track's key. \<open>searchLyrics\<close>, which no caller uses, returns the even-split
  timeline for the same result.
\<close>

theorem plain_only_resolves_to_none:
  "client (lrclib_query_of (name t) (artists t) (duration t)) = Resolved (Some d)
   \<and> \<not> instrumental d \<and> or_null (syncedLyrics d) = None
   \<and> plainLyrics d = Some p \<and> p \<noteq> [] \<longrightarrow>
     fetchAndParseLyrics client (name t) (artists t) (duration t) = None
     \<and> searchLyrics client client (name t) (artists t) (duration t)
         = Some (convertPlainToTimed p (duration t))
     \<and> ((CACHE_ENABLED cfg \<longrightarrow>
           fst (cache_get (lyricsCache b) (clock_get w) (name t) (artists t)) = None) \<longrightarrow>
          currentLyrics (fetchAndCacheLyrics cfg (w\<lparr>lrclib := client\<rparr>) t b) = None
          \<and> currentLyrics (change_track cfg (w\<lparr>lrclib := client\<rparr>) t b) = None
          \<and> (CACHE_ENABLED cfg \<longrightarrow>
               fmlookup (cache (lyricsCache (fetchAndCacheLyrics cfg (w\<lparr>lrclib := client\<rparr>) t b)))
                 (generateKey (name t) (artists t)) = None))"
proof (intro impI)
  assume h: "client (lrclib_query_of (name t) (artists t) (duration t)) = Resolved (Some d)
   \<and> \<not> instrumental d \<and> or_null (syncedLyrics d) = None
   \<and> plainLyrics d = Some p \<and> p \<noteq> []"
  have a: "fetchLyrics client (name t) (artists t) (duration t)
       = Some \<lparr>instrumental = False, syncedLyrics = None, plainLyrics = Some p\<rparr>"
    using h fetchLyrics_cases [of client "name t" "artists t" "duration t" d]
    by (simp add: or_null_def)
  have c: "fetchAndParseLyrics client (name t) (artists t) (duration t) = None"
    by (simp add: fetchAndParseLyrics_def a)
  have s: "searchLyrics client client (name t) (artists t) (duration t)
         = Some (convertPlainToTimed p (duration t))"
    using h by (simp add: searchLyrics_def c a)
  from c s fetch_none_current [OF c, of cfg b w]
  show "fetchAndParseLyrics client (name t) (artists t) (duration t) = None
     \<and> searchLyrics client client (name t) (artists t) (duration t)
         = Some (convertPlainToTimed p (duration t))
     \<and> ((CACHE_ENABLED cfg \<longrightarrow>
           fst (cache_get (lyricsCache b) (clock_get w) (name t) (artists t)) = None) \<longrightarrow>
          currentLyrics (fetchAndCacheLyrics cfg (w\<lparr>lrclib := client\<rparr>) t b) = None
          \<and> currentLyrics (change_track cfg (w\<lparr>lrclib := client\<rparr>) t b) = None
          \<and> (CACHE_ENABLED cfg \<longrightarrow>
               fmlookup (cache (lyricsCache (fetchAndCacheLyrics cfg (w\<lparr>lrclib := client\<rparr>) t b)))
                 (generateKey (name t) (artists t)) = None))"
    by blast
qed

theorem plain_only_resolves_to_none_witness:
  "lrclib_plain (lrclib_query_of (name track_x) (artists track_x) (duration track_x))
     = Resolved (Some \<lparr>instrumental = False, syncedLyrics = None,
                       plainLyrics = Some four_lines\<rparr>)
   \<and> four_lines \<noteq> []
   \<and> fst (cache_get (lyricsCache (new_bot default_config)) 5000 (name track_x) (artists track_x))
     = None
   \<and> fetchAndParseLyrics lrclib_plain (js ''X'') (js ''Ann, Bob'') 4000 = None
   \<and> searchLyrics lrclib_plain lrclib_plain (js ''X'') (js ''Ann, Bob'') 4000
     = Some [\<lparr>time = 0, lyric = js ''l1''\<rparr>, \<lparr>time = 1000, lyric = js ''l2''\<rparr>,
             \<lparr>time = 2000, lyric = js ''l3''\<rparr>, \<lparr>time = 3000, lyric = js ''l4''\<rparr>]
   \<and> currentLyrics (change_track default_config
        (tick_at (Playing track_x) lrclib_plain 5000) track_x (new_bot default_config))
     = None
   \<and> fmlookup (cache (lyricsCache (fetchAndCacheLyrics default_config
        (tick_at (Playing track_x) lrclib_plain 5000) track_x (new_bot default_config))))
        (generateKey (js ''X'') (js ''Ann, Bob'')) = None"
proof -
  have c: "fst (cache_get (lyricsCache (new_bot default_config)) 5000 (name track_x)
             (artists track_x)) = None"
    by (simp add: cache_get_def new_bot_def new_LyricsCache_def)
  have u: "(tick_at (Playing track_x) lrclib_plain 5000)\<lparr>lrclib := lrclib_plain\<rparr>
             = tick_at (Playing track_x) lrclib_plain 5000"
    by (simp_all add: tick_at_def)
  have n: "name track_x = js ''X''" "artists track_x = js ''Ann, Bob''" "duration track_x = 4000"
    by (simp_all add: track_x_def)
  have v: "convertPlainToTimed four_lines 4000
     = [\<lparr>time = 0, lyric = js ''l1''\<rparr>, \<lparr>time = 1000, lyric = js ''l2''\<rparr>,
        \<lparr>time = 2000, lyric = js ''l3''\<rparr>, \<lparr>time = 3000, lyric = js ''l4''\<rparr>]"
    by (simp add: convertPlainToTimed_def four_lines_def js_def trim_def is_whitespace_def
        is_line_terminator_def round_div_def enumerate_eq_zip upt_rec)
  have f: "four_lines \<noteq> []" by (simp add: four_lines_def)
  show ?thesis
    using c f v plain_only_resolves_to_none [of lrclib_plain track_x
        "\<lparr>instrumental = False, syncedLyrics = None, plainLyrics = Some four_lines\<rparr>"
        four_lines default_config "new_bot default_config"
        "tick_at (Playing track_x) lrclib_plain 5000"]
    unfolding u n
    by (simp add: lrclib_plain_def or_null_def tick_at_def default_config_def)
qed

subsection \<open>Parsing\<close>




























end
